theory Spec2Isabelle
  imports Main
begin

section \<open>Strings, integers and paths as the program uses them\<close>

text \<open>
  Python strings are modelled as \<open>string\<close>, a character standing for a code point
  below 256. The program lowercases a string only to compare it with an ASCII literal
  (\<open>segment\<close>, \<open>youtube.com\<close>, \<open>youtu.be\<close>), and no character outside ASCII
  lowercases to a letter of these literals, so \<open>str.lower\<close> is modelled on the letters
  A to Z and leaves every other character.
\<close>

definition lower_chr :: "char \<Rightarrow> char" where
  "lower_chr c =
     (let n = (of_char c :: nat) in if 65 \<le> n \<and> n \<le> 90 then char_of (n + 32) else c)"

definition lower :: "string \<Rightarrow> string" where
  "lower s = map lower_chr s"

text \<open>\<open>s.endswith(suf)\<close>.\<close>

definition endswith :: "string \<Rightarrow> string \<Rightarrow> bool" where
  "endswith s suf = (length suf \<le> length s \<and> drop (length s - length suf) s = suf)"

text \<open>
  \<open>str.strip()\<close>: the whitespace characters are removed at both ends. Below 256 these
  are the code points 9 to 13, 28 to 32, 133 and 160.
\<close>

definition isspace :: "char \<Rightarrow> bool" where
  "isspace c =
     (let n = (of_char c :: nat)
      in (9 \<le> n \<and> n \<le> 13) \<or> (28 \<le> n \<and> n \<le> 32) \<or> n = 133 \<or> n = 160)"

definition strip :: "string \<Rightarrow> string" where
  "strip s = rev (dropWhile isspace (rev (dropWhile isspace s)))"

text \<open>
  The decimal text of an integer: digits, with a minus sign for a negative number.
  Python's integers are unbounded, hence \<open>int\<close>.
\<close>

definition digit_chr :: "nat \<Rightarrow> char" where
  "digit_chr d = char_of (48 + d)"

fun digits :: "nat \<Rightarrow> string" where
  "digits n = (if n < 10 then [digit_chr n] else digits (n div 10) @ [digit_chr (n mod 10)])"

declare digits.simps [simp del]

definition str_int :: "int \<Rightarrow> string" where
  "str_int i = (if i < 0 then CHR ''-'' # digits (nat (- i)) else digits (nat i))"

text \<open>
  Python turns an integer into text only when it has at most 4300 decimal digits, the
  sign not counted; beyond that the conversion raises \<open>ValueError\<close>.
\<close>

definition fits :: "int \<Rightarrow> bool" where
  "fits i = (length (digits (nat \<bar>i\<bar>)) \<le> 4300)"

text \<open>
  Paths are their text. \<open>output_dir / output_filename\<close> and \<open>Path.name\<close> are modelled
  for a plain file name (no separator in it), which is all the endpoint ever passes.
\<close>

definition path_join :: "string \<Rightarrow> string \<Rightarrow> string" where
  "path_join d f = d @ ''/'' @ f"

definition path_name :: "string \<Rightarrow> string" where
  "path_name p = rev (takeWhile (\<lambda>c. c \<noteq> CHR ''/'') (rev p))"

section \<open>The world outside the program\<close>

text \<open>
  What happens to a command line handed to \<open>subprocess.run\<close>: the program is not found;
  or the operating system refuses to start it for another reason, such as a missing
  execute permission, with the text of its error; or \<open>subprocess.run\<close> itself rejects
  an argument, such as one that holds a NUL character, with the message of its
  \<open>ValueError\<close>; or the process runs and exits with a return code, the bytes of its
  standard output and the bytes of its standard error.
\<close>

datatype proc_result = NotFound | Refused string | Rejected string | Exited int string string

text \<open>
  The environment holds what the program cannot decide itself: the library's
  \<open>urlparse\<close>, giving the scheme and the netloc of a URL (\<open>None\<close> when it raises); the
  outcome of the \<open>k\<close>-th call of \<open>subprocess.run\<close> on a command line; and the text that
  \<open>text=True\<close> makes of captured bytes, or the message of the \<open>UnicodeDecodeError\<close>
  when they do not decode.
\<close>

record env =
  urlparse :: "string \<Rightarrow> (string \<times> string) option"
  proc :: "nat \<Rightarrow> string list \<Rightarrow> proc_result"
  decode :: "string \<Rightarrow> string + string"

datatype entry = File | Dir

text \<open>
  The state threaded through the program: every command line handed to
  \<open>subprocess.run\<close> so far, oldest first, and the transient storage.
\<close>

record world =
  spawned :: "string list list"
  storage :: "string \<rightharpoonup> entry"

text \<open>
  What \<open>subprocess.run(..., check=True)\<close> raises: \<open>CalledProcessError\<close> with the
  return code and the captured output, \<open>FileNotFoundError\<close> for the program, another
  \<open>OSError\<close> with its text, \<open>ValueError\<close> for an argument it rejects, or
  \<open>UnicodeDecodeError\<close> with its message.
\<close>

datatype run_error =
    CalledProcessError int string string
  | NoSuchProgram string
  | OSRefused string
  | ArgRejected string
  | DecodeFailed string

text \<open>The exceptions that travel through the program's own functions.\<close>

datatype exn =
    HTTPException int string
  | ValueError string
  | UnicodeDecodeError string
  | RuntimeError string
  | FileNotFoundError string
  | FileExistsError string
  | IsADirectoryError string
  | OSError string

text \<open>\<open>isinstance(e, ValueError)\<close>; \<open>UnicodeDecodeError\<close> is a subclass of it.\<close>

fun is_ValueError :: "exn \<Rightarrow> bool" where
  "is_ValueError (ValueError m) = True"
| "is_ValueError (UnicodeDecodeError m) = True"
| "is_ValueError e = False"

text \<open>
  \<open>str(e)\<close>: the message of a \<open>ValueError\<close> or \<open>RuntimeError\<close>, the framework's
  \<open>status: detail\<close> for an \<open>HTTPException\<close>, the operating system's text otherwise.
\<close>

fun str_exn :: "exn \<Rightarrow> string" where
  "str_exn (HTTPException code detail) = str_int code @ '': '' @ detail"
| "str_exn (ValueError m) = m"
| "str_exn (UnicodeDecodeError m) = m"
| "str_exn (RuntimeError m) = m"
| "str_exn (FileNotFoundError f) = ''[Errno 2] No such file or directory: '' @ [CHR 0x27] @ f @ [CHR 0x27]"
| "str_exn (FileExistsError f) = ''[Errno 17] File exists: '' @ [CHR 0x27] @ f @ [CHR 0x27]"
| "str_exn (IsADirectoryError f) = ''[Errno 21] Is a directory: '' @ [CHR 0x27] @ f @ [CHR 0x27]"
| "str_exn (OSError m) = m"

text \<open>An integer inside an f-string.\<close>

definition format_int :: "int \<Rightarrow> exn + string" where
  "format_int i =
     (if fits i then Inr (str_int i)
      else Inl (ValueError (''Exceeds the limit (4300 digits) for integer string conversion; ''
                            @ ''use sys.set_int_max_str_digits() to increase the limit'')))"

definition prog_of :: "string list \<Rightarrow> string" where
  "prog_of cmd = (case cmd of [] \<Rightarrow> [] | p # args \<Rightarrow> p)"

text \<open>
  \<open>subprocess.run(cmd, capture_output=True, check=True)\<close>, with \<open>text=True\<close> or
  without it. With \<open>text=True\<close> both captured outputs are decoded before the return
  code is looked at.
\<close>

definition subprocess_run ::
  "env \<Rightarrow> bool \<Rightarrow> string list \<Rightarrow> world \<Rightarrow> (run_error + string \<times> string) \<times> world" where
  "subprocess_run os text cmd w =
     (let w' = w\<lparr>spawned := spawned w @ [cmd]\<rparr> in
      case proc os (length (spawned w)) cmd of
        NotFound \<Rightarrow> (Inl (NoSuchProgram (prog_of cmd)), w')
      | Refused m \<Rightarrow> (Inl (OSRefused m), w')
      | Rejected m \<Rightarrow> (Inl (ArgRejected m), w')
      | Exited rc out err \<Rightarrow>
          (if text then
             (case decode os out of
                Inl m \<Rightarrow> (Inl (DecodeFailed m), w')
              | Inr out_text \<Rightarrow>
                  (case decode os err of
                     Inl m \<Rightarrow> (Inl (DecodeFailed m), w')
                   | Inr err_text \<Rightarrow>
                       (if rc \<noteq> 0 then Inl (CalledProcessError rc out_text err_text)
                        else Inr (out_text, err_text), w')))
           else (if rc \<noteq> 0 then Inl (CalledProcessError rc out err) else Inr (out, err), w')))"

text \<open>\<open>Path.mkdir(exist_ok=True)\<close> in the working directory.\<close>

definition mkdir_exist_ok :: "string \<Rightarrow> world \<Rightarrow> (exn + unit) \<times> world" where
  "mkdir_exist_ok p w =
     (case storage w p of
        None \<Rightarrow> (Inr (), w\<lparr>storage := (storage w)(p \<mapsto> Dir)\<rparr>)
      | Some Dir \<Rightarrow> (Inr (), w)
      | Some File \<Rightarrow> (Inl (FileExistsError p), w))"

text \<open>\<open>Path.unlink(missing_ok)\<close>.\<close>

definition unlink :: "string \<Rightarrow> bool \<Rightarrow> (string \<rightharpoonup> entry) \<Rightarrow> exn + (string \<rightharpoonup> entry)" where
  "unlink p missing_ok st =
     (case st p of
        None \<Rightarrow> (if missing_ok then Inr st else Inl (FileNotFoundError p))
      | Some File \<Rightarrow> Inr (st(p := None))
      | Some Dir \<Rightarrow> Inl (IsADirectoryError p))"

section \<open>Dependency check\<close>

text \<open>
  Each \<open>except\<close> clause catches \<open>CalledProcessError\<close> and \<open>FileNotFoundError\<close>;
  any other error of \<open>subprocess.run\<close> leaves the function as it is.
\<close>

definition check_dependencies :: "env \<Rightarrow> world \<Rightarrow> (exn + unit) \<times> world" where
  "check_dependencies os w =
     (case subprocess_run os False [''yt-dlp'', ''--version''] w of
        (Inl (CalledProcessError rc out err), w1) \<Rightarrow>
          (Inl (RuntimeError ''yt-dlp is not installed. Install with: pip install yt-dlp''), w1)
      | (Inl (NoSuchProgram p), w1) \<Rightarrow>
          (Inl (RuntimeError ''yt-dlp is not installed. Install with: pip install yt-dlp''), w1)
      | (Inl (OSRefused m), w1) \<Rightarrow> (Inl (OSError m), w1)
      | (Inl (ArgRejected m), w1) \<Rightarrow> (Inl (ValueError m), w1)
      | (Inl (DecodeFailed m), w1) \<Rightarrow> (Inl (UnicodeDecodeError m), w1)
      | (Inr r, w1) \<Rightarrow>
          (case subprocess_run os False [''ffmpeg'', ''-version''] w1 of
             (Inl (CalledProcessError rc out err), w2) \<Rightarrow>
               (Inl (RuntimeError ''ffmpeg is not installed. Install from https://ffmpeg.org/''), w2)
           | (Inl (NoSuchProgram p), w2) \<Rightarrow>
               (Inl (RuntimeError ''ffmpeg is not installed. Install from https://ffmpeg.org/''), w2)
           | (Inl (OSRefused m), w2) \<Rightarrow> (Inl (OSError m), w2)
           | (Inl (ArgRejected m), w2) \<Rightarrow> (Inl (ValueError m), w2)
           | (Inl (DecodeFailed m), w2) \<Rightarrow> (Inl (UnicodeDecodeError m), w2)
           | (Inr r, w2) \<Rightarrow> (Inr (), w2)))"

section \<open>URL validation\<close>

definition is_youtube_url :: "env \<Rightarrow> string \<Rightarrow> bool" where
  "is_youtube_url os u =
     (case urlparse os u of
        None \<Rightarrow> False
      | Some (scheme, netloc) \<Rightarrow>
          if scheme = [] \<or> netloc = [] then False
          else (let hostname = lower netloc
                in endswith hostname ''youtube.com'' \<or> endswith hostname ''youtu.be''))"

definition probe_cmd :: "string \<Rightarrow> string list" where
  "probe_cmd u = [''yt-dlp'', ''--simulate'', ''--skip-download'', ''--quiet'', ''--no-warnings'', u]"

definition validate_youtube_url_downloadable ::
  "env \<Rightarrow> string \<Rightarrow> world \<Rightarrow> (exn + unit) \<times> world" where
  "validate_youtube_url_downloadable os u w =
     (if \<not> is_youtube_url os u
      then (Inl (ValueError ''Provided URL is not a valid YouTube link.''), w)
      else case check_dependencies os w of
        (Inl e, w1) \<Rightarrow> (Inl e, w1)
      | (Inr ok, w1) \<Rightarrow>
          (case subprocess_run os True (probe_cmd u) w1 of
             (Inl (CalledProcessError rc out err), w2) \<Rightarrow>
               (Inl (ValueError (''The provided YouTube URL is not downloadable. '' @ strip err)), w2)
           | (Inl (NoSuchProgram p), w2) \<Rightarrow> (Inl (FileNotFoundError p), w2)
           | (Inl (OSRefused m), w2) \<Rightarrow> (Inl (OSError m), w2)
           | (Inl (ArgRejected m), w2) \<Rightarrow> (Inl (ValueError m), w2)
           | (Inl (DecodeFailed m), w2) \<Rightarrow> (Inl (UnicodeDecodeError m), w2)
           | (Inr r, w2) \<Rightarrow> (Inr (), w2)))"


section \<open>Video download functions\<close>

text \<open>\<open>if not output_filename\<close> holds for \<open>None\<close> and for the empty string.\<close>

definition filename_or :: "string option \<Rightarrow> string \<Rightarrow> string" where
  "filename_or output_filename dflt =
     (case output_filename of None \<Rightarrow> dflt | Some f \<Rightarrow> if f = [] then dflt else f)"

text \<open>
  The one integer \<open>download_full_video\<close> formats is the quality. The endpoint passes
  the quality of the request, read from the JSON body, whose parser takes no number of
  more than 4300 digits: its text exists, and \<open>str_int\<close> gives it.
\<close>

definition full_cmd :: "string \<Rightarrow> int \<Rightarrow> string \<Rightarrow> string list" where
  "full_cmd u q output_path =
     [''yt-dlp'',
      ''--format'', ''best[height<='' @ str_int q @ '']'',
      ''--output'', output_path,
      u]"

definition download_full_video ::
  "env \<Rightarrow> string \<Rightarrow> int \<Rightarrow> string option \<Rightarrow> world \<Rightarrow> (exn + string) \<times> world" where
  "download_full_video os u q output_filename w =
     (case validate_youtube_url_downloadable os u w of
        (Inl e, w1) \<Rightarrow> (Inl e, w1)
      | (Inr ok, w1) \<Rightarrow>
          (let output_dir = ''downloads'' in
           case mkdir_exist_ok output_dir w1 of
             (Inl e, w2) \<Rightarrow> (Inl e, w2)
           | (Inr ok, w2) \<Rightarrow>
               (let output_path = path_join output_dir (filename_or output_filename ''full_video.mp4'')
                in case subprocess_run os True (full_cmd u q output_path) w2 of
                     (Inr r, w3) \<Rightarrow> (Inr output_path, w3)
                   | (Inl (CalledProcessError rc out err), w3) \<Rightarrow>
                       (Inl (RuntimeError (''Error downloading video: '' @ err)), w3)
                   | (Inl (NoSuchProgram p), w3) \<Rightarrow> (Inl (FileNotFoundError p), w3)
                   | (Inl (OSRefused m), w3) \<Rightarrow> (Inl (OSError m), w3)
                   | (Inl (ArgRejected m), w3) \<Rightarrow> (Inl (ValueError m), w3)
                   | (Inl (DecodeFailed m), w3) \<Rightarrow> (Inl (UnicodeDecodeError m), w3))))"

text \<open>
  \<open>download_video_segment\<close> formats, besides the integers it is given, their
  difference, which can have a digit more than either; every integer it puts into an
  f-string carries the error of the conversion. The default file name is built only when
  no name is given.
\<close>

definition segment_filename :: "string option \<Rightarrow> int \<Rightarrow> int \<Rightarrow> exn + string" where
  "segment_filename output_filename start_t end_t =
     (case output_filename of
        Some (c # cs) \<Rightarrow> Inr (c # cs)
      | _ \<Rightarrow>
          (case format_int start_t of
             Inl e \<Rightarrow> Inl e
           | Inr start_text \<Rightarrow>
               (case format_int end_t of
                  Inl e \<Rightarrow> Inl e
                | Inr end_text \<Rightarrow>
                    Inr (''video_segment_'' @ start_text @ ''s_to_'' @ end_text @ ''s.mp4''))))"

definition segment_cmd :: "string \<Rightarrow> int \<Rightarrow> int \<Rightarrow> int \<Rightarrow> string \<Rightarrow> exn + string list" where
  "segment_cmd u start_t duration q output_path =
     (case format_int q of
        Inl e \<Rightarrow> Inl e
      | Inr q_text \<Rightarrow>
          (case format_int start_t of
             Inl e \<Rightarrow> Inl e
           | Inr start_text \<Rightarrow>
               (case format_int duration of
                  Inl e \<Rightarrow> Inl e
                | Inr duration_text \<Rightarrow>
                    Inr [''yt-dlp'',
                         ''--format'', ''best[height<='' @ q_text @ '']'',
                         ''--external-downloader'', ''ffmpeg'',
                         ''--external-downloader-args'',
                         ''ffmpeg:-ss '' @ start_text @ '' -t '' @ duration_text,
                         ''--output'', output_path,
                         u])))"

definition download_video_segment ::
  "env \<Rightarrow> string \<Rightarrow> int \<Rightarrow> int \<Rightarrow> int \<Rightarrow> string option \<Rightarrow> world \<Rightarrow> (exn + string) \<times> world" where
  "download_video_segment os u start_t end_t q output_filename w =
     (case validate_youtube_url_downloadable os u w of
        (Inl e, w1) \<Rightarrow> (Inl e, w1)
      | (Inr ok, w1) \<Rightarrow>
          (let duration = end_t - start_t;
               output_dir = ''downloads'' in
           case mkdir_exist_ok output_dir w1 of
             (Inl e, w2) \<Rightarrow> (Inl e, w2)
           | (Inr ok, w2) \<Rightarrow>
               (case segment_filename output_filename start_t end_t of
                  Inl e \<Rightarrow> (Inl e, w2)
                | Inr name \<Rightarrow>
                    (let output_path = path_join output_dir name in
                     case segment_cmd u start_t duration q output_path of
                       Inl e \<Rightarrow> (Inl e, w2)
                     | Inr cmd \<Rightarrow>
                         (case subprocess_run os True cmd w2 of
                            (Inr r, w3) \<Rightarrow> (Inr output_path, w3)
                          | (Inl (CalledProcessError rc out err), w3) \<Rightarrow>
                              (Inl (RuntimeError (''Error downloading video segment: '' @ err)), w3)
                          | (Inl (NoSuchProgram p), w3) \<Rightarrow> (Inl (FileNotFoundError p), w3)
                          | (Inl (OSRefused m), w3) \<Rightarrow> (Inl (OSError m), w3)
                          | (Inl (ArgRejected m), w3) \<Rightarrow> (Inl (ValueError m), w3)
                          | (Inl (DecodeFailed m), w3) \<Rightarrow> (Inl (UnicodeDecodeError m), w3))))))"

section \<open>Request model and endpoint\<close>

record VideoRequest =
  url :: string
  quality :: int
  mode :: string
  start_time :: "int option"
  end_time :: "int option"

text \<open>A background task: \<open>file_path.unlink\<close> with its \<open>missing_ok\<close> argument.\<close>

datatype task = Unlink string bool

text \<open>
  What the client receives: the file response (path, filename, media type, and the
  tasks to run once it is sent), or the error the framework renders from the
  \<open>HTTPException\<close> leaving the endpoint (status code and detail).
\<close>

datatype response =
    FileResponse string string string "task list"
  | ErrorResponse int string

text \<open>The status code of a response; a file response is sent with 200.\<close>

fun status_of :: "response \<Rightarrow> int" where
  "status_of (FileResponse path filename media_type background) = 200"
| "status_of (ErrorResponse code detail) = code"

text \<open>The body of the \<open>try\<close> block up to the value of \<open>file_path\<close>.\<close>

definition dispatch :: "env \<Rightarrow> VideoRequest \<Rightarrow> world \<Rightarrow> (exn + string) \<times> world" where
  "dispatch os request w =
     (if lower (mode request) = ''segment'' then
        (case (start_time request, end_time request) of
           (Some s, Some e) \<Rightarrow> download_video_segment os (url request) s e (quality request) None w
         | _ \<Rightarrow>
             (Inl (HTTPException 400 ''For segment mode, start_time and end_time must be provided''), w))
      else download_full_video os (url request) (quality request) None w)"

definition api_download :: "env \<Rightarrow> VideoRequest \<Rightarrow> world \<Rightarrow> response \<times> world" where
  "api_download os request w =
     (case dispatch os request w of
        (Inr file_path, w') \<Rightarrow>
          (FileResponse file_path (path_name file_path) ''video/mp4'' [Unlink file_path True], w')
      | (Inl e, w') \<Rightarrow>
          (if is_ValueError e then ErrorResponse 400 (str_exn e)
           else ErrorResponse 500 (str_exn e), w'))"

text \<open>The framework runs the background tasks, in order, after the response is sent.\<close>

fun run_background :: "task list \<Rightarrow> (string \<rightharpoonup> entry) \<Rightarrow> exn + (string \<rightharpoonup> entry)" where
  "run_background [] st = Inr st"
| "run_background (Unlink p missing_ok # ts) st =
     (case unlink p missing_ok st of Inl e \<Rightarrow> Inl e | Inr st' \<Rightarrow> run_background ts st')"

section \<open>Concrete environments\<close>

text \<open>
  The scheme and netloc that \<open>urlparse\<close> gives for a URL of printable ASCII without
  square brackets. Leading control characters and spaces are dropped, then every tab,
  carriage return and line feed; the scheme is the text before the first colon when it is
  made of scheme characters and starts with a letter; the netloc is what follows \<open>//\<close>
  up to the next \<open>/\<close>, \<open>?\<close> or \<open>#\<close>. An unmatched square bracket in the netloc
  raises; the library's further checks of a bracketed host are not modelled.
\<close>

definition is_alpha :: "char \<Rightarrow> bool" where
  "is_alpha c =
     (let n = (of_char c :: nat) in (65 \<le> n \<and> n \<le> 90) \<or> (97 \<le> n \<and> n \<le> 122))"

definition is_digit :: "char \<Rightarrow> bool" where
  "is_digit c = (let n = (of_char c :: nat) in 48 \<le> n \<and> n \<le> 57)"

definition is_scheme_chr :: "char \<Rightarrow> bool" where
  "is_scheme_chr c = (is_alpha c \<or> is_digit c \<or> c \<in> set ''+-.'')"

definition urlparse_plain :: "string \<Rightarrow> (string \<times> string) option" where
  "urlparse_plain u0 =
     (let u = filter (\<lambda>c. (of_char c :: nat) \<notin> {9, 10, 13})
                (dropWhile (\<lambda>c. (of_char c :: nat) \<le> 32) u0);
          pre = takeWhile (\<lambda>c. c \<noteq> CHR '':'') u;
          has_scheme = (length pre < length u \<and> pre \<noteq> [] \<and> is_alpha (hd pre) \<and> list_all is_scheme_chr pre);
          scheme = (if has_scheme then lower pre else []);
          rest = (if has_scheme then drop (Suc (length pre)) u else u);
          netloc = (if take 2 rest = ''//''
                    then takeWhile (\<lambda>c. c \<notin> set ''/?#'') (drop 2 rest) else [])
      in if (CHR ''['' \<in> set netloc) \<noteq> (CHR '']'' \<in> set netloc) then None
         else Some (scheme, netloc))"

text \<open>A strict decoder: ASCII bytes are their own text, any other byte is an error.\<close>

definition decode_ascii :: "string \<Rightarrow> string + string" where
  "decode_ascii bs =
     (if list_all (\<lambda>c. (of_char c :: nat) < 128) bs then Inr bs
      else Inl ''codec can not decode byte: ordinal not in range(128)'')"

definition w0 :: world where
  "w0 = \<lparr>spawned = [], storage = Map.empty\<rparr>"

text \<open>Both tools installed, every process exits with 0.\<close>

definition env_ok :: env where
  "env_ok = \<lparr>urlparse = urlparse_plain, proc = (\<lambda>k cmd. Exited 0 [] []), decode = decode_ascii\<rparr>"

text \<open>Both tools installed, the probe succeeds, the fetch itself exits with 1.\<close>

definition env_fetch_fails :: env where
  "env_fetch_fails =
     \<lparr>urlparse = urlparse_plain,
      proc = (\<lambda>k cmd. if ''--format'' \<in> set cmd then Exited 1 [] ''ERROR: Video unavailable''
                      else Exited 0 [] []),
      decode = decode_ascii\<rparr>"

text \<open>
  As before, but the fetch writes the single byte \<open>0xFF\<close> to its standard error, which
  is no text in any ASCII-compatible encoding.
\<close>

definition env_fetch_garbled :: env where
  "env_fetch_garbled =
     \<lparr>urlparse = urlparse_plain,
      proc = (\<lambda>k cmd. if ''--format'' \<in> set cmd then Exited 1 [] [CHR 0xFF]
                      else Exited 0 [] []),
      decode = decode_ascii\<rparr>"







text \<open>The world after a validation of \<open>https://youtu.be/VALID\<close> that passed, starting from \<open>w0\<close>.\<close>

definition w_validated :: world where
  "w_validated = w0\<lparr>spawned := [[''yt-dlp'', ''--version''], [''ffmpeg'', ''-version''],
                                  probe_cmd ''https://youtu.be/VALID'']\<rparr>"

section \<open>Decimal text of integers\<close>

lemma digit_chr_value: "d < 10 \<Longrightarrow> of_char (digit_chr d) = 48 + d"
  by (simp add: digit_chr_def)

lemma digits_decode:
  "foldl (\<lambda>a c. 10 * a + (of_char c - 48)) 0 (digits n) = n"
proof (induction n rule: digits.induct)
  case (1 n)
  show ?case
  proof (cases "n < 10")
    case True
    then show ?thesis
      by (subst digits.simps) (simp add: digit_chr_value)
  next
    case False
    with "1" have ih: "foldl (\<lambda>a c. 10 * a + (of_char c - 48)) 0 (digits (n div 10)) = n div 10"
      by simp
    have m: "of_char (digit_chr (n mod 10)) = 48 + n mod 10"
      by (simp add: digit_chr_value)
    have u: "digits n = digits (n div 10) @ [digit_chr (n mod 10)]"
      using False by (subst digits.simps) simp
    have "foldl (\<lambda>a c. 10 * a + (of_char c - 48)) 0 (digits n)
            = 10 * (n div 10) + (of_char (digit_chr (n mod 10)) - 48)"
      unfolding u by (simp only: foldl_append foldl.simps ih)
    also have "\<dots> = 10 * (n div 10) + n mod 10"
      by (simp only: m add_diff_cancel_left')
    also have "\<dots> = n"
      by presburger
    finally show ?thesis .
  qed
qed

lemma digits_inject:
  assumes "digits a = digits b"
  shows "a = b"
proof -
  have "a = foldl (\<lambda>a c. 10 * a + (of_char c - 48)) 0 (digits a)"
    by (simp only: digits_decode)
  also have "\<dots> = foldl (\<lambda>a c. 10 * a + (of_char c - 48)) 0 (digits b)"
    by (simp only: assms)
  also have "\<dots> = b"
    by (simp only: digits_decode)
  finally show ?thesis .
qed

lemma digits_is_digit: "list_all is_digit (digits n)"
proof (induction n rule: digits.induct)
  case (1 n)
  have d: "is_digit (digit_chr (n mod 10))"
    by (simp add: is_digit_def digit_chr_value)
  show ?case
  proof (cases "n < 10")
    case True
    then have "is_digit (digit_chr n)" by (simp add: is_digit_def digit_chr_value)
    with True show ?thesis by (subst digits.simps) simp
  next
    case False
    have u: "digits n = digits (n div 10) @ [digit_chr (n mod 10)]"
      using False by (subst digits.simps) simp
    from False "1" have "list_all is_digit (digits (n div 10))" by simp
    with d show ?thesis unfolding u by simp
  qed
qed

lemma digits_no_minus: "digits n \<noteq> CHR ''-'' # t"
proof
  assume "digits n = CHR ''-'' # t"
  with digits_is_digit [of n] have "is_digit (CHR ''-'')" by simp
  then show False by (simp add: is_digit_def)
qed

lemma str_int_inject: "str_int a = str_int b \<Longrightarrow> a = b"
proof -
  assume eq: "str_int a = str_int b"
  consider "a < 0" "b < 0" | "a < 0" "0 \<le> b" | "0 \<le> a" "b < 0" | "0 \<le> a" "0 \<le> b"
    by linarith
  then show "a = b"
  proof cases
    case 1
    with eq have "digits (nat (- a)) = digits (nat (- b))" by (simp add: str_int_def)
    then have "nat (- a) = nat (- b)" by (rule digits_inject)
    with 1 show ?thesis by simp
  next
    case 2
    with eq have "digits (nat b) = CHR ''-'' # digits (nat (- a))" by (simp add: str_int_def)
    then show ?thesis using digits_no_minus by blast
  next
    case 3
    with eq have "digits (nat a) = CHR ''-'' # digits (nat (- b))" by (simp add: str_int_def)
    then show ?thesis using digits_no_minus by blast
  next
    case 4
    with eq have "digits (nat a) = digits (nat b)" by (simp add: str_int_def)
    then have "nat a = nat b" by (rule digits_inject)
    with 4 show ?thesis by simp
  qed
qed

lemma str_int_10: "str_int 10 = ''10''" by code_simp
lemma str_int_15: "str_int 15 = ''15''" by code_simp
lemma str_int_25: "str_int 25 = ''25''" by code_simp

lemma fits_10: "fits 10" by code_simp
lemma fits_15: "fits 15" by code_simp
lemma fits_25: "fits 25" by code_simp
lemma fits_720: "fits 720" by code_simp
lemma fits_neg_15: "fits (- 15)" by code_simp

section \<open>Basic facts about the primitives\<close>

lemma subprocess_run_result:
  "\<exists>x. subprocess_run os t cmd w = (x, w\<lparr>spawned := spawned w @ [cmd]\<rparr>)"
  by (simp add: subprocess_run_def Let_def split: proc_result.splits sum.splits)

lemma subprocess_run_failed:
  assumes "proc os (length (spawned w)) cmd = Exited rc out err" and "rc \<noteq> 0"
      and "decode os out = Inr out_text" and "decode os err = Inr err_text"
  shows "subprocess_run os True cmd w =
           (Inl (CalledProcessError rc out_text err_text), w\<lparr>spawned := spawned w @ [cmd]\<rparr>)"
  using assms by (simp add: subprocess_run_def Let_def)

lemma subprocess_run_succeeded:
  assumes "proc os (length (spawned w)) cmd = Exited 0 out err"
      and "decode os out = Inr out_text" and "decode os err = Inr err_text"
  shows "subprocess_run os True cmd w = (Inr (out_text, err_text), w\<lparr>spawned := spawned w @ [cmd]\<rparr>)"
  using assms by (simp add: subprocess_run_def Let_def)

lemma subprocess_run_bytes_succeeded:
  assumes "proc os (length (spawned w)) cmd = Exited 0 out err"
  shows "subprocess_run os False cmd w = (Inr (out, err), w\<lparr>spawned := spawned w @ [cmd]\<rparr>)"
  using assms by (simp add: subprocess_run_def Let_def)

lemma mkdir_exist_ok_success:
  assumes "storage w p \<noteq> Some File"
  shows "mkdir_exist_ok p w = (Inr (), w\<lparr>storage := (storage w)(p \<mapsto> Dir)\<rparr>)"
proof (cases "storage w p")
  case None
  then show ?thesis by (simp add: mkdir_exist_ok_def)
next
  case (Some k)
  with assms have k: "k = Dir" by (cases k) auto
  have "(storage w)(p \<mapsto> Dir) = storage w" using Some k by (auto simp: fun_upd_idem_iff)
  then show ?thesis using Some k by (simp add: mkdir_exist_ok_def)
qed

lemma mkdir_exist_ok_spawned:
  "spawned (snd (mkdir_exist_ok p w)) = spawned w"
  by (simp add: mkdir_exist_ok_def split: option.splits entry.splits)

lemma validate_rejects:
  assumes "\<not> is_youtube_url os u"
  shows "validate_youtube_url_downloadable os u w =
           (Inl (ValueError ''Provided URL is not a valid YouTube link.''), w)"
  using assms by (simp add: validate_youtube_url_downloadable_def)

lemma format_int_fits: "fits i \<Longrightarrow> format_int i = Inr (str_int i)"
  by (simp add: format_int_def)

lemma format_int_text: "format_int i = Inr t \<Longrightarrow> t = str_int i"
  by (auto simp: format_int_def split: if_splits)

lemma segment_cmd_fits:
  assumes "fits q" and "fits s" and "fits d"
  shows "segment_cmd u s d q p =
           Inr [''yt-dlp'',
                ''--format'', ''best[height<='' @ str_int q @ '']'',
                ''--external-downloader'', ''ffmpeg'',
                ''--external-downloader-args'',
                ''ffmpeg:-ss '' @ str_int s @ '' -t '' @ str_int d,
                ''--output'', p,
                u]"
  using assms by (simp add: segment_cmd_def format_int_fits)

lemma segment_cmd_shape:
  assumes "segment_cmd u s d q p = Inr c"
  shows "c = [''yt-dlp'',
              ''--format'', ''best[height<='' @ str_int q @ '']'',
              ''--external-downloader'', ''ffmpeg'',
              ''--external-downloader-args'',
              ''ffmpeg:-ss '' @ str_int s @ '' -t '' @ str_int d,
              ''--output'', p,
              u]"
proof -
  from assms obtain qt st dt where
    q: "format_int q = Inr qt" and s: "format_int s = Inr st" and d: "format_int d = Inr dt"
    and c: "c = [''yt-dlp'',
              ''--format'', ''best[height<='' @ qt @ '']'',
              ''--external-downloader'', ''ffmpeg'',
              ''--external-downloader-args'',
              ''ffmpeg:-ss '' @ st @ '' -t '' @ dt,
              ''--output'', p,
              u]"
    by (auto simp: segment_cmd_def split: sum.splits)
  from format_int_text [OF q] format_int_text [OF s] format_int_text [OF d]
  show ?thesis
    unfolding c by simp
qed

lemma segment_filename_default:
  assumes "fits s" and "fits e"
  shows "segment_filename None s e =
           Inr (''video_segment_'' @ str_int s @ ''s_to_'' @ str_int e @ ''s.mp4'')"
  using assms by (simp add: segment_filename_def format_int_fits)

lemma segment_filename_default_shape:
  assumes "segment_filename None s e = Inr n"
  shows "n = ''video_segment_'' @ str_int s @ ''s_to_'' @ str_int e @ ''s.mp4''"
proof -
  from assms obtain a b where
    a: "format_int s = Inr a" and b: "format_int e = Inr b"
    and n: "n = ''video_segment_'' @ a @ ''s_to_'' @ b @ ''s.mp4''"
    by (auto simp: segment_filename_def split: sum.splits)
  from format_int_text [OF a] format_int_text [OF b]
  show ?thesis
    unfolding n by simp
qed

lemma full_after_validation:
  assumes "validate_youtube_url_downloadable os u w = (Inr (), w1)"
      and "storage w1 ''downloads'' \<noteq> Some File"
  shows "spawned (snd (download_full_video os u q fn w)) =
           spawned w1 @ [full_cmd u q (path_join ''downloads'' (filename_or fn ''full_video.mp4''))]"
proof -
  let ?w2 = "w1\<lparr>storage := (storage w1)(''downloads'' \<mapsto> Dir)\<rparr>"
  let ?p = "path_join ''downloads'' (filename_or fn ''full_video.mp4'')"
  obtain x where x: "subprocess_run os True (full_cmd u q ?p) ?w2 =
        (x, ?w2\<lparr>spawned := spawned ?w2 @ [full_cmd u q ?p]\<rparr>)"
    using subprocess_run_result by blast
  show ?thesis
    using assms(1) mkdir_exist_ok_success [OF assms(2)] x
    by (simp add: download_full_video_def Let_def split: sum.splits run_error.splits)
qed

text \<open>
  What a segment fetch starts once validation has passed: nothing, or one command, and
  then the one that \<open>segment_cmd\<close> builds.
\<close>

lemma segment_after_validation_cases:
  assumes "validate_youtube_url_downloadable os u w = (Inr (), w1)"
  shows "spawned (snd (download_video_segment os u s e q fn w)) = spawned w1
         \<or> (\<exists>p c. segment_cmd u s (e - s) q p = Inr c
                \<and> spawned (snd (download_video_segment os u s e q fn w)) = spawned w1 @ [c])"
proof (cases "mkdir_exist_ok ''downloads'' w1")
  case (Pair m w2)
  with mkdir_exist_ok_spawned [of "''downloads''" w1] have sp: "spawned w2 = spawned w1"
    by simp
  show ?thesis
  proof (cases m)
    case (Inl x)
    with Pair assms sp show ?thesis
      by (simp add: download_video_segment_def Let_def)
  next
    case (Inr ok)
    show ?thesis
    proof (cases "segment_filename fn s e")
      case (Inl x)
      with Inr Pair assms sp show ?thesis
        by (simp add: download_video_segment_def Let_def)
    next
      case n: (Inr name)
      show ?thesis
      proof (cases "segment_cmd u s (e - s) q (path_join ''downloads'' name)")
        case (Inl x)
        with n Inr Pair assms sp show ?thesis
          by (simp add: download_video_segment_def Let_def)
      next
        case c: (Inr cmd)
        obtain x where x: "subprocess_run os True cmd w2 = (x, w2\<lparr>spawned := spawned w2 @ [cmd]\<rparr>)"
          using subprocess_run_result by blast
        from c n Inr Pair assms sp x
        have "spawned (snd (download_video_segment os u s e q fn w)) = spawned w1 @ [cmd]"
          by (simp add: download_video_segment_def Let_def split: sum.splits run_error.splits)
        with c show ?thesis by blast
      qed
    qed
  qed
qed

lemma segment_after_validation:
  assumes "validate_youtube_url_downloadable os u w = (Inr (), w1)"
      and "storage w1 ''downloads'' \<noteq> Some File"
      and "fits s" and "fits e" and "fits q" and "fits (e - s)"
  shows "spawned (snd (download_video_segment os u s e q None w)) =
           spawned w1 @
           [[''yt-dlp'',
             ''--format'', ''best[height<='' @ str_int q @ '']'',
             ''--external-downloader'', ''ffmpeg'',
             ''--external-downloader-args'',
             ''ffmpeg:-ss '' @ str_int s @ '' -t '' @ str_int (e - s),
             ''--output'',
             ''downloads/video_segment_'' @ str_int s @ ''s_to_'' @ str_int e @ ''s.mp4'',
             u]]"
proof -
  let ?w2 = "w1\<lparr>storage := (storage w1)(''downloads'' \<mapsto> Dir)\<rparr>"
  let ?p = "path_join ''downloads'' (''video_segment_'' @ str_int s @ ''s_to_'' @ str_int e @ ''s.mp4'')"
  let ?c = "[''yt-dlp'',
             ''--format'', ''best[height<='' @ str_int q @ '']'',
             ''--external-downloader'', ''ffmpeg'',
             ''--external-downloader-args'',
             ''ffmpeg:-ss '' @ str_int s @ '' -t '' @ str_int (e - s),
             ''--output'', ?p, u]"
  have n: "segment_filename None s e =
             Inr (''video_segment_'' @ str_int s @ ''s_to_'' @ str_int e @ ''s.mp4'')"
    using assms(3,4) by (rule segment_filename_default)
  have c: "segment_cmd u s (e - s) q ?p = Inr ?c"
    using assms(5,3,6) by (rule segment_cmd_fits)
  obtain x where x: "subprocess_run os True ?c ?w2 = (x, ?w2\<lparr>spawned := spawned ?w2 @ [?c]\<rparr>)"
    using subprocess_run_result by blast
  have "spawned (snd (download_video_segment os u s e q None w)) = spawned w1 @ [?c]"
    using assms(1) mkdir_exist_ok_success [OF assms(2)] n c x
    by (simp add: download_video_segment_def Let_def split: sum.splits run_error.splits)
  then show ?thesis
    by (simp add: path_join_def)
qed

section \<open>Facts about strings\<close>

lemma str_int_400: "str_int 400 = ''400''"
  by code_simp

lemma lower_segment: "lower ''segment'' = ''segment''"
  by code_simp

lemma lower_full: "lower ''full'' \<noteq> ''segment''"
  by code_simp

lemma not_digit_m: "\<not> is_digit (CHR ''m'')"
  by (simp add: is_digit_def)

lemma not_digit_e: "\<not> is_digit (CHR ''e'')"
  by (simp add: is_digit_def)

lemma lower_chr_digit: "is_digit c \<Longrightarrow> lower_chr c = c"
  by (simp add: is_digit_def lower_chr_def Let_def)

lemma lower_chr_colon: "lower_chr (CHR '':'') = CHR '':''"
  by (simp add: lower_chr_def)

lemma endswith_last:
  assumes "endswith s suf" and "suf \<noteq> []"
  shows "s \<noteq> [] \<and> last s = last suf"
proof -
  from assms have d: "drop (length s - length suf) s = suf" and l: "length suf \<le> length s"
    by (simp_all add: endswith_def)
  from l assms(2) have ne: "s \<noteq> []" by auto
  have "last s = last (drop (length s - length suf) s)"
    using l assms(2) ne by (simp add: last_drop)
  with d ne show ?thesis by simp
qed

lemma port_netloc_last:
  assumes "list_all is_digit port"
  shows "last (lower (host @ '':'' @ port)) = CHR '':''
         \<or> is_digit (last (lower (host @ '':'' @ port)))"
proof (cases "port = []")
  case True
  then show ?thesis by (simp add: lower_def lower_chr_colon)
next
  case False
  then have "last port \<in> set port" by simp
  with assms have dg: "is_digit (last port)" by (simp add: list_all_iff)
  have "last (lower (host @ '':'' @ port)) = lower_chr (last port)"
    using False by (simp add: lower_def last_map)
  with dg show ?thesis by (simp add: lower_chr_digit)
qed

lemma port_netloc_no_match:
  assumes "list_all is_digit port"
  shows "\<not> endswith (lower (host @ '':'' @ port)) ''youtube.com''"
    and "\<not> endswith (lower (host @ '':'' @ port)) ''youtu.be''"
proof -
  let ?n = "lower (host @ '':'' @ port)"
  from port_netloc_last [OF assms, of host]
  have l: "last ?n \<noteq> CHR ''m'' \<and> last ?n \<noteq> CHR ''e''"
    using not_digit_m not_digit_e by auto
  show "\<not> endswith ?n ''youtube.com''"
    using endswith_last [of ?n "''youtube.com''"] l by auto
  show "\<not> endswith ?n ''youtu.be''"
    using endswith_last [of ?n "''youtu.be''"] l by auto
qed

section \<open>The endpoint's guard on segment requests\<close>

lemma dispatch_missing_bounds:
  assumes "lower (mode r) = ''segment''" and "start_time r = None \<or> end_time r = None"
  shows "dispatch os r w =
     (Inl (HTTPException 400 ''For segment mode, start_time and end_time must be provided''), w)"
  using assms by (auto simp: dispatch_def split: option.splits)

lemma api_missing_bounds:
  assumes "lower (mode r) = ''segment''" and "start_time r = None \<or> end_time r = None"
  shows "api_download os r w =
     (ErrorResponse 500 ''400: For segment mode, start_time and end_time must be provided'', w)"
  using dispatch_missing_bounds [OF assms] by (simp add: api_download_def str_int_400)

text \<open>
  C1. A segment request without \<open>start_time\<close>, or without \<open>end_time\<close>, starts no
  external process: the world is returned as it was. The endpoint raises an
  \<open>HTTPException\<close> with status 400 inside its own \<open>try\<close> block; the handler below it
  catches every exception, finds that this one is no \<open>ValueError\<close>, and answers with
  status 500, the text of the caught exception as the detail.
\<close>

theorem segment_missing_bounds_answer:
  "api_download os \<lparr>url = u, quality = q, mode = ''segment'', start_time = None, end_time = e\<rparr> w
     = (ErrorResponse 500 ''400: For segment mode, start_time and end_time must be provided'', w)
   \<and> api_download os \<lparr>url = u, quality = q, mode = ''segment'', start_time = s, end_time = None\<rparr> w
     = (ErrorResponse 500 ''400: For segment mode, start_time and end_time must be provided'', w)"
  by (simp add: api_missing_bounds lower_segment)

section \<open>Host check\<close>




text \<open>
  C10. A netloc that carries a port, \<open>host:port\<close> with \<open>port\<close> made of digits, is
  rejected whatever the host is: the suffix test reads the lowercased netloc, whose last
  character is then a digit or the colon.
\<close>

theorem explicit_port_rejected:
  assumes "urlparse os u = Some (scheme, host @ '':'' @ port)" and "list_all is_digit port"
  shows "\<not> is_youtube_url os u
         \<and> validate_youtube_url_downloadable os u w =
             (Inl (ValueError ''Provided URL is not a valid YouTube link.''), w)"
proof -
  have "\<not> is_youtube_url os u"
    using assms(1) port_netloc_no_match [OF assms(2), of host]
    by (simp add: is_youtube_url_def Let_def)
  then show ?thesis
    by (simp add: validate_rejects)
qed

theorem explicit_port_rejected_witness:
  "endswith (lower ''www.youtube.com'') ''youtube.com''
   \<and> \<not> is_youtube_url env_ok ''https://www.youtube.com:443/watch?v=x''
   \<and> validate_youtube_url_downloadable env_ok ''https://www.youtube.com:443/watch?v=x'' w0 =
        (Inl (ValueError ''Provided URL is not a valid YouTube link.''), w0)"
proof -
  have p: "urlparse env_ok ''https://www.youtube.com:443/watch?v=x''
             = Some (''https'', ''www.youtube.com'' @ '':'' @ ''443'')"
    by code_simp
  have d: "list_all is_digit ''443''"
    by code_simp
  have h: "endswith (lower ''www.youtube.com'') ''youtube.com''"
    by code_simp
  from explicit_port_rejected [OF p d, of w0] h show ?thesis
    by simp
qed

section \<open>Runs that pass validation\<close>

lemma check_dependencies_succeeds:
  assumes "proc os (length (spawned w)) [''yt-dlp'', ''--version''] = Exited 0 o1 e1"
      and "proc os (Suc (length (spawned w))) [''ffmpeg'', ''-version''] = Exited 0 o2 e2"
  shows "check_dependencies os w =
           (Inr (), w\<lparr>spawned := spawned w @ [[''yt-dlp'', ''--version''], [''ffmpeg'', ''-version'']]\<rparr>)"
proof -
  let ?w1 = "w\<lparr>spawned := spawned w @ [[''yt-dlp'', ''--version'']]\<rparr>"
  have r1: "subprocess_run os False [''yt-dlp'', ''--version''] w = (Inr (o1, e1), ?w1)"
    using assms(1) by (rule subprocess_run_bytes_succeeded)
  have "proc os (length (spawned ?w1)) [''ffmpeg'', ''-version''] = Exited 0 o2 e2"
    using assms(2) by simp
  then have r2: "subprocess_run os False [''ffmpeg'', ''-version''] ?w1 =
       (Inr (o2, e2), ?w1\<lparr>spawned := spawned ?w1 @ [[''ffmpeg'', ''-version'']]\<rparr>)"
    by (rule subprocess_run_bytes_succeeded)
  show ?thesis
    by (simp add: check_dependencies_def r1 r2)
qed

lemma validate_succeeds:
  assumes "is_youtube_url os u"
      and "proc os (length (spawned w)) [''yt-dlp'', ''--version''] = Exited 0 o1 e1"
      and "proc os (Suc (length (spawned w))) [''ffmpeg'', ''-version''] = Exited 0 o2 e2"
      and "proc os (Suc (Suc (length (spawned w)))) (probe_cmd u) = Exited 0 o3 e3"
      and "decode os o3 = Inr t3" and "decode os e3 = Inr t4"
  shows "validate_youtube_url_downloadable os u w =
           (Inr (), w\<lparr>spawned := spawned w @
              [[''yt-dlp'', ''--version''], [''ffmpeg'', ''-version''], probe_cmd u]\<rparr>)"
proof -
  let ?w2 = "w\<lparr>spawned := spawned w @ [[''yt-dlp'', ''--version''], [''ffmpeg'', ''-version'']]\<rparr>"
  have c: "check_dependencies os w = (Inr (), ?w2)"
    using assms(2,3) by (rule check_dependencies_succeeds)
  have "proc os (length (spawned ?w2)) (probe_cmd u) = Exited 0 o3 e3"
    using assms(4) by simp
  then have p: "subprocess_run os True (probe_cmd u) ?w2 =
       (Inr (t3, t4), ?w2\<lparr>spawned := spawned ?w2 @ [probe_cmd u]\<rparr>)"
    using assms(5,6) by (rule subprocess_run_succeeded)
  show ?thesis
    using assms(1) by (simp add: validate_youtube_url_downloadable_def c p)
qed

lemma decode_ascii_empty: "decode_ascii [] = Inr []"
  by (simp add: decode_ascii_def)

lemma youtu_be_VALID_ok: "is_youtube_url env_ok ''https://youtu.be/VALID''"
  by code_simp

lemma youtu_be_VALID_fetch_fails: "is_youtube_url env_fetch_fails ''https://youtu.be/VALID''"
  by code_simp

lemma validate_env_ok:
  "validate_youtube_url_downloadable env_ok ''https://youtu.be/VALID'' w0 = (Inr (), w_validated)"
  using validate_succeeds [OF youtu_be_VALID_ok, of w0 "[]" "[]" "[]" "[]" "[]" "[]" "[]" "[]"]
  by (simp add: env_ok_def w0_def w_validated_def decode_ascii_empty)

lemma validate_env_fetch_fails:
  "validate_youtube_url_downloadable env_fetch_fails ''https://youtu.be/VALID'' w0 = (Inr (), w_validated)"
  using validate_succeeds [OF youtu_be_VALID_fetch_fails, of w0 "[]" "[]" "[]" "[]" "[]" "[]" "[]" "[]"]
  by (simp add: env_fetch_fails_def w0_def w_validated_def probe_cmd_def decode_ascii_empty)

lemma w_validated_storage: "storage w_validated ''downloads'' \<noteq> Some File"
  by (simp add: w_validated_def w0_def)

lemma snd_api_download: "snd (api_download os r w) = snd (dispatch os r w)"
  by (simp add: api_download_def split: prod.splits sum.splits)

lemma dispatch_segment:
  assumes "lower (mode r) = ''segment''" and "start_time r = Some s" and "end_time r = Some e"
  shows "dispatch os r w = download_video_segment os (url r) s e (quality r) None w"
  using assms by (simp add: dispatch_def)

lemma dispatch_full:
  assumes "lower (mode r) \<noteq> ''segment''"
  shows "dispatch os r w = download_full_video os (url r) (quality r) None w"
  using assms by (simp add: dispatch_def)

lemma api_download_error:
  assumes "fst (dispatch os r w) = Inl e"
  shows "fst (api_download os r w) =
           (if is_ValueError e then ErrorResponse 400 (str_exn e) else ErrorResponse 500 (str_exn e))"
  using assms by (cases "dispatch os r w") (simp add: api_download_def)

lemma str_int_720: "str_int 720 = ''720''" by code_simp
lemma str_int_neg_15: "str_int (- 15) = ''-15''" by code_simp

section \<open>Segment fetch: the bounds are passed through\<close>

text \<open>
  C2, as the claim states it, fails: the request below has both bounds, with
  \<open>end_time = 10\<close> not above \<open>start_time = 25\<close>, and the fetch tool is started on it
  with seek 25 and duration -15; the endpoint answers with the file.
\<close>

theorem segment_end_before_start_counterexample:
  "(10::int) \<le> 25
   \<and> [''yt-dlp'', ''--format'', ''best[height<=720]'',
       ''--external-downloader'', ''ffmpeg'',
       ''--external-downloader-args'', ''ffmpeg:-ss 25 -t -15'',
       ''--output'', ''downloads/video_segment_25s_to_10s.mp4'',
       ''https://youtu.be/VALID'']
      \<in> set (spawned (snd (api_download env_ok
            \<lparr>url = ''https://youtu.be/VALID'', quality = 720, mode = ''segment'',
             start_time = Some 25, end_time = Some 10\<rparr> w0)))
   \<and> fst (api_download env_ok
            \<lparr>url = ''https://youtu.be/VALID'', quality = 720, mode = ''segment'',
             start_time = Some 25, end_time = Some 10\<rparr> w0)
      = FileResponse ''downloads/video_segment_25s_to_10s.mp4''
          ''video_segment_25s_to_10s.mp4'' ''video/mp4''
          [Unlink ''downloads/video_segment_25s_to_10s.mp4'' True]"
  by code_simp

text \<open>
  C2, amended. The endpoint checks that both bounds of a segment request are present
  and nothing else about them: whenever both are present, validation of the URL and the
  creation of the output directory succeed, and the quality, the two bounds and their
  difference each have a decimal text (at most 4300 digits), the next command started is
  the segment fetch, with seek \<open>start_time\<close>, duration \<open>end_time - start_time\<close> and
  the request's quality, whatever the order or the sign of the bounds.
\<close>

theorem segment_bounds_passed_through:
  assumes "lower (mode r) = ''segment''"
      and "start_time r = Some s" and "end_time r = Some e"
      and "validate_youtube_url_downloadable os (url r) w = (Inr (), w1)"
      and "storage w1 ''downloads'' \<noteq> Some File"
      and "fits s" and "fits e" and "fits (quality r)" and "fits (e - s)"
  shows "spawned (snd (api_download os r w)) =
           spawned w1 @
           [[''yt-dlp'',
             ''--format'', ''best[height<='' @ str_int (quality r) @ '']'',
             ''--external-downloader'', ''ffmpeg'',
             ''--external-downloader-args'',
             ''ffmpeg:-ss '' @ str_int s @ '' -t '' @ str_int (e - s),
             ''--output'',
             ''downloads/video_segment_'' @ str_int s @ ''s_to_'' @ str_int e @ ''s.mp4'',
             url r]]"
proof -
  have "snd (api_download os r w) = snd (download_video_segment os (url r) s e (quality r) None w)"
    by (simp add: snd_api_download dispatch_segment [OF assms(1,2,3)])
  then show ?thesis
    by (simp only: segment_after_validation [OF assms(4,5,6,7,8,9)])
qed

theorem segment_bounds_passed_through_witness:
  "spawned (snd (api_download env_ok
       \<lparr>url = ''https://youtu.be/VALID'', quality = 720, mode = ''segment'',
        start_time = Some 25, end_time = Some 10\<rparr> w0)) =
     spawned w_validated @
     [[''yt-dlp'',
       ''--format'', ''best[height<=720]'',
       ''--external-downloader'', ''ffmpeg'',
       ''--external-downloader-args'', ''ffmpeg:-ss 25 -t -15'',
       ''--output'', ''downloads/video_segment_25s_to_10s.mp4'',
       ''https://youtu.be/VALID'']]"
proof -
  let ?r = "\<lparr>url = ''https://youtu.be/VALID'', quality = 720, mode = ''segment'',
             start_time = Some 25, end_time = Some 10\<rparr>"
  have m: "lower (mode ?r) = ''segment''"
    by (simp add: lower_segment)
  have s: "start_time ?r = Some 25" and e: "end_time ?r = Some 10"
    by simp_all
  have v: "validate_youtube_url_downloadable env_ok (url ?r) w0 = (Inr (), w_validated)"
    by (simp add: validate_env_ok)
  have q: "fits (quality ?r)"
    by (simp add: fits_720)
  have d: "fits (10 - 25)"
    by (simp add: fits_neg_15)
  from segment_bounds_passed_through [OF m s e v w_validated_storage fits_25 fits_10 q d]
  show ?thesis
    by (simp add: str_int_10 str_int_25 str_int_720 str_int_neg_15)
qed

section \<open>Segment fetch: the duration\<close>

lemma segment_filename_fits:
  assumes "fits s" and "fits e"
  shows "\<exists>n. segment_filename fn s e = Inr n"
  using assms
  by (auto simp: segment_filename_def format_int_fits split: option.splits list.splits)

lemma segment_fetch_started:
  assumes "validate_youtube_url_downloadable os u w = (Inr (), w1)"
      and "storage w1 ''downloads'' \<noteq> Some File"
      and "fits s" and "fits e" and "fits q" and "fits (e - s)"
  shows "\<exists>c. spawned (snd (download_video_segment os u s e q fn w)) = spawned w1 @ [c]"
proof -
  let ?w2 = "w1\<lparr>storage := (storage w1)(''downloads'' \<mapsto> Dir)\<rparr>"
  from segment_filename_fits [OF assms(3,4)]
  obtain n where n: "segment_filename fn s e = Inr n"
    by blast
  from segment_cmd_fits [OF assms(5,3,6)]
  obtain c where c: "segment_cmd u s (e - s) q (path_join ''downloads'' n) = Inr c"
    by blast
  obtain x where x: "subprocess_run os True c ?w2 = (x, ?w2\<lparr>spawned := spawned ?w2 @ [c]\<rparr>)"
    using subprocess_run_result by blast
  have "spawned (snd (download_video_segment os u s e q fn w)) = spawned w1 @ [c]"
    using assms(1) mkdir_exist_ok_success [OF assms(2)] n c x
    by (simp add: download_video_segment_def Let_def split: sum.splits run_error.splits)
  then show ?thesis by blast
qed

lemma segment_fetch_arguments:
  assumes "validate_youtube_url_downloadable os u w = (Inr (), w1)"
  shows "drop (length (spawned w1)) (spawned (snd (download_video_segment os u s e q fn w))) = []
         \<or> (\<exists>c. drop (length (spawned w1))
                   (spawned (snd (download_video_segment os u s e q fn w))) = [c]
               \<and> c ! 5 = ''--external-downloader-args''
               \<and> c ! 6 = ''ffmpeg:-ss '' @ str_int s @ '' -t '' @ str_int (e - s))"
proof -
  from segment_after_validation_cases [OF assms, of s e q fn]
  consider "spawned (snd (download_video_segment os u s e q fn w)) = spawned w1"
    | p c where "segment_cmd u s (e - s) q p = Inr c"
        and "spawned (snd (download_video_segment os u s e q fn w)) = spawned w1 @ [c]"
    by blast
  then show ?thesis
  proof cases
    case 1
    then show ?thesis by simp
  next
    case 2
    from segment_cmd_shape [OF 2(1)]
    have "c ! 5 = ''--external-downloader-args''
          \<and> c ! 6 = ''ffmpeg:-ss '' @ str_int s @ '' -t '' @ str_int (e - s)"
      by simp
    with 2(2) show ?thesis by simp
  qed
qed

text \<open>
  C4. Once validation has passed, a segment fetch starts at most one more command, and
  that command has \<open>--external-downloader-args\<close> followed by
  \<open>ffmpeg:-ss start -t duration\<close>, where the duration is the decimal text of
  \<open>end_time - start_time\<close> and of no other integer; for 10 and 25 it is 15. The command
  is started whenever the output directory can be created and the integers have a
  decimal text.
\<close>

theorem segment_duration_argument:
  assumes "validate_youtube_url_downloadable os u w = (Inr (), w1)"
  shows "(drop (length (spawned w1)) (spawned (snd (download_video_segment os u s e q fn w))) = []
          \<or> (\<exists>c. drop (length (spawned w1))
                    (spawned (snd (download_video_segment os u s e q fn w))) = [c]
                \<and> c ! 5 = ''--external-downloader-args''
                \<and> c ! 6 = ''ffmpeg:-ss '' @ str_int s @ '' -t '' @ str_int (e - s)))
       \<and> (\<forall>d. str_int d = str_int (e - s) \<longrightarrow> d = e - s)
       \<and> (storage w1 ''downloads'' \<noteq> Some File \<and> fits s \<and> fits e \<and> fits q \<and> fits (e - s) \<longrightarrow>
            drop (length (spawned w1))
              (spawned (snd (download_video_segment os u s e q fn w))) \<noteq> [])
       \<and> (drop (length (spawned w1)) (spawned (snd (download_video_segment os u 10 25 q fn w))) = []
          \<or> (\<exists>c. drop (length (spawned w1))
                    (spawned (snd (download_video_segment os u 10 25 q fn w))) = [c]
                \<and> c ! 6 = ''ffmpeg:-ss 10 -t 15''))"
proof (intro conjI)
  show "drop (length (spawned w1)) (spawned (snd (download_video_segment os u s e q fn w))) = []
          \<or> (\<exists>c. drop (length (spawned w1))
                    (spawned (snd (download_video_segment os u s e q fn w))) = [c]
                \<and> c ! 5 = ''--external-downloader-args''
                \<and> c ! 6 = ''ffmpeg:-ss '' @ str_int s @ '' -t '' @ str_int (e - s))"
    using assms by (rule segment_fetch_arguments)
  show "\<forall>d. str_int d = str_int (e - s) \<longrightarrow> d = e - s"
    using str_int_inject by blast
  show "storage w1 ''downloads'' \<noteq> Some File \<and> fits s \<and> fits e \<and> fits q \<and> fits (e - s) \<longrightarrow>
            drop (length (spawned w1))
              (spawned (snd (download_video_segment os u s e q fn w))) \<noteq> []"
  proof
    assume h: "storage w1 ''downloads'' \<noteq> Some File \<and> fits s \<and> fits e \<and> fits q \<and> fits (e - s)"
    then have "\<exists>c. spawned (snd (download_video_segment os u s e q fn w)) = spawned w1 @ [c]"
      using segment_fetch_started [OF assms] by blast
    then show "drop (length (spawned w1))
              (spawned (snd (download_video_segment os u s e q fn w))) \<noteq> []"
      by auto
  qed
  from segment_fetch_arguments [OF assms, of 10 25 q fn]
  show "drop (length (spawned w1)) (spawned (snd (download_video_segment os u 10 25 q fn w))) = []
          \<or> (\<exists>c. drop (length (spawned w1))
                    (spawned (snd (download_video_segment os u 10 25 q fn w))) = [c]
                \<and> c ! 6 = ''ffmpeg:-ss 10 -t 15'')"
    by (auto simp: str_int_10 str_int_15)
qed

theorem segment_duration_argument_witness:
  "last (spawned (snd (download_video_segment env_ok ''https://youtu.be/VALID'' 10 25 720 None w0))) ! 5
           = ''--external-downloader-args''
   \<and> last (spawned (snd (download_video_segment env_ok ''https://youtu.be/VALID'' 10 25 720 None w0))) ! 6
           = ''ffmpeg:-ss 10 -t 15''"
proof -
  let ?sp = "spawned (snd (download_video_segment env_ok ''https://youtu.be/VALID'' 10 25 720 None w0))"
  let ?n = "length (spawned w_validated)"
  note t = segment_duration_argument [OF validate_env_ok, of 10 25 720 None]
  have f: "fits (25 - 10)"
    by (simp add: fits_15)
  from t w_validated_storage fits_10 fits_25 fits_720 f
  have ne: "drop ?n ?sp \<noteq> []"
    by (simp only: simp_thms)
  with t obtain c where c: "drop ?n ?sp = [c]"
    and c5: "c ! 5 = ''--external-downloader-args''"
    and c6: "c ! 6 = ''ffmpeg:-ss '' @ str_int 10 @ '' -t '' @ str_int (25 - 10)"
    by auto
  from ne have "?n < length ?sp"
    by simp
  then have "last ?sp = last (drop ?n ?sp)"
    by (simp add: last_drop)
  with c have "last ?sp = c"
    by simp
  with c5 c6 show ?thesis
    by (simp add: str_int_10 str_int_15)
qed

section \<open>Default output names\<close>

lemma download_full_video_result:
  assumes "download_full_video os u q fn w = (Inr p, w')"
  shows "p = path_join ''downloads'' (filename_or fn ''full_video.mp4'')
         \<and> spawned w' \<noteq> [] \<and> last (spawned w') = full_cmd u q p"
proof -
  from assms obtain w2 x where
    p: "p = path_join ''downloads'' (filename_or fn ''full_video.mp4'')"
    and r: "subprocess_run os True (full_cmd u q p) w2 = (Inr x, w')"
    by (auto simp: download_full_video_def Let_def
             split: prod.splits sum.splits run_error.splits)
  from subprocess_run_result [of os True "full_cmd u q p" w2] r
  have "w' = w2\<lparr>spawned := spawned w2 @ [full_cmd u q p]\<rparr>"
    by simp
  then have "spawned w' \<noteq> [] \<and> last (spawned w') = full_cmd u q p"
    by simp
  with p show ?thesis by blast
qed

lemma download_video_segment_result:
  assumes "download_video_segment os u s e q None w = (Inr p, w')"
  shows "p = ''downloads/video_segment_'' @ str_int s @ ''s_to_'' @ str_int e @ ''s.mp4''
         \<and> last (spawned w') ! 7 = ''--output'' \<and> last (spawned w') ! 8 = p"
proof -
  from assms obtain w2 n c x where
    n: "segment_filename None s e = Inr n"
    and p: "p = path_join ''downloads'' n"
    and c: "segment_cmd u s (e - s) q p = Inr c"
    and r: "subprocess_run os True c w2 = (Inr x, w')"
    by (auto simp: download_video_segment_def Let_def
             split: prod.splits sum.splits run_error.splits)
  from subprocess_run_result [of os True c w2] r
  have "w' = w2\<lparr>spawned := spawned w2 @ [c]\<rparr>"
    by simp
  then have l: "last (spawned w') = c"
    by simp
  from segment_cmd_shape [OF c]
  have "c ! 7 = ''--output'' \<and> c ! 8 = p"
    by simp
  with l have a: "last (spawned w') ! 7 = ''--output'' \<and> last (spawned w') ! 8 = p"
    by simp
  from segment_filename_default_shape [OF n] p
  have "p = ''downloads/video_segment_'' @ str_int s @ ''s_to_'' @ str_int e @ ''s.mp4''"
    by (simp add: path_join_def)
  with a show ?thesis by blast
qed

lemma path_name_full: "path_name ''downloads/full_video.mp4'' = ''full_video.mp4''"
  by code_simp

lemma path_name_segment_10_25:
  "path_name ''downloads/video_segment_10s_to_25s.mp4'' = ''video_segment_10s_to_25s.mp4''"
  by code_simp

lemma full_default_path:
  "path_join ''downloads'' (filename_or None ''full_video.mp4'') = ''downloads/full_video.mp4''"
  by (simp add: path_join_def filename_or_def)

text \<open>
  C5. With no output filename given, a full fetch that succeeds returns the path
  \<open>downloads/full_video.mp4\<close>, whose name is \<open>full_video.mp4\<close>, and that path is
  the \<open>--output\<close> argument of the fetch command it ran last; a segment fetch from 10 to
  25 that succeeds returns \<open>downloads/video_segment_10s_to_25s.mp4\<close>, whose name is
  \<open>video_segment_10s_to_25s.mp4\<close>, again the \<open>--output\<close> argument.
\<close>

theorem default_output_names:
  "(fst (download_full_video os u q None w) = Inr p \<longrightarrow>
      p = ''downloads/full_video.mp4'' \<and> path_name p = ''full_video.mp4''
      \<and> last (spawned (snd (download_full_video os u q None w))) ! 3 = ''--output''
      \<and> last (spawned (snd (download_full_video os u q None w))) ! 4 = p)
   \<and> (fst (download_video_segment os u 10 25 q None w) = Inr p \<longrightarrow>
      p = ''downloads/video_segment_10s_to_25s.mp4''
      \<and> path_name p = ''video_segment_10s_to_25s.mp4''
      \<and> last (spawned (snd (download_video_segment os u 10 25 q None w))) ! 7 = ''--output''
      \<and> last (spawned (snd (download_video_segment os u 10 25 q None w))) ! 8 = p)"
proof (intro conjI impI)
  let ?w = "snd (download_full_video os u q None w)"
  assume "fst (download_full_video os u q None w) = Inr p"
  then have a: "download_full_video os u q None w = (Inr p, ?w)"
    by (simp add: prod_eq_iff)
  from download_full_video_result [OF a]
  have p: "p = ''downloads/full_video.mp4''" and l: "last (spawned ?w) = full_cmd u q p"
    by (simp_all add: full_default_path)
  show "p = ''downloads/full_video.mp4''" by (rule p)
  show "path_name p = ''full_video.mp4''" by (simp only: p path_name_full)
  show "last (spawned ?w) ! 3 = ''--output''" by (simp add: l full_cmd_def)
  show "last (spawned ?w) ! 4 = p" by (simp add: l full_cmd_def)
next
  let ?w = "snd (download_video_segment os u 10 25 q None w)"
  assume "fst (download_video_segment os u 10 25 q None w) = Inr p"
  then have a: "download_video_segment os u 10 25 q None w = (Inr p, ?w)"
    by (simp add: prod_eq_iff)
  from download_video_segment_result [OF a]
  have p: "p = ''downloads/video_segment_10s_to_25s.mp4''"
    and l7: "last (spawned ?w) ! 7 = ''--output''"
    and l8: "last (spawned ?w) ! 8 = p"
    by (simp_all add: str_int_10 str_int_25)
  show "p = ''downloads/video_segment_10s_to_25s.mp4''" by (rule p)
  show "path_name p = ''video_segment_10s_to_25s.mp4''" by (simp only: p path_name_segment_10_25)
  show "last (spawned ?w) ! 7 = ''--output''" by (rule l7)
  show "last (spawned ?w) ! 8 = p" by (rule l8)
qed

theorem default_output_names_witness:
  "fst (download_full_video env_ok ''https://youtu.be/VALID'' 720 None w0)
     = Inr ''downloads/full_video.mp4''
   \<and> path_name ''downloads/full_video.mp4'' = ''full_video.mp4''
   \<and> last (spawned (snd (download_full_video env_ok ''https://youtu.be/VALID'' 720 None w0))) ! 4
     = ''downloads/full_video.mp4''
   \<and> fst (download_video_segment env_ok ''https://youtu.be/VALID'' 10 25 720 None w0)
     = Inr ''downloads/video_segment_10s_to_25s.mp4''
   \<and> path_name ''downloads/video_segment_10s_to_25s.mp4'' = ''video_segment_10s_to_25s.mp4''
   \<and> last (spawned (snd (download_video_segment env_ok ''https://youtu.be/VALID'' 10 25 720 None w0))) ! 8
     = ''downloads/video_segment_10s_to_25s.mp4''"
proof -
  have f: "fst (download_full_video env_ok ''https://youtu.be/VALID'' 720 None w0)
             = Inr ''downloads/full_video.mp4''"
    by code_simp
  have g: "fst (download_video_segment env_ok ''https://youtu.be/VALID'' 10 25 720 None w0)
             = Inr ''downloads/video_segment_10s_to_25s.mp4''"
    by code_simp
  from default_output_names
         [of env_ok "''https://youtu.be/VALID''" 720 w0 "''downloads/full_video.mp4''"] f
  have 1: "path_name ''downloads/full_video.mp4'' = ''full_video.mp4''
     \<and> last (spawned (snd (download_full_video env_ok ''https://youtu.be/VALID'' 720 None w0))) ! 4
       = ''downloads/full_video.mp4''"
    by blast
  from default_output_names
         [of env_ok "''https://youtu.be/VALID''" 720 w0 "''downloads/video_segment_10s_to_25s.mp4''"] g
  have 2: "path_name ''downloads/video_segment_10s_to_25s.mp4'' = ''video_segment_10s_to_25s.mp4''
     \<and> last (spawned (snd (download_video_segment env_ok ''https://youtu.be/VALID'' 10 25 720 None w0))) ! 8
       = ''downloads/video_segment_10s_to_25s.mp4''"
    by blast
  from f g 1 2 show ?thesis by blast
qed

section \<open>A fetch that exits non-zero\<close>

lemma download_full_video_fails:
  assumes "validate_youtube_url_downloadable os u w = (Inr (), w1)"
      and "storage w1 ''downloads'' \<noteq> Some File"
      and "proc os (length (spawned w1))
             (full_cmd u q (path_join ''downloads'' (filename_or fn ''full_video.mp4'')))
           = Exited rc out err"
      and "rc \<noteq> 0"
      and "decode os out = Inr out_text" and "decode os err = Inr err_text"
  shows "fst (download_full_video os u q fn w)
           = Inl (RuntimeError (''Error downloading video: '' @ err_text))"
proof -
  let ?w2 = "w1\<lparr>storage := (storage w1)(''downloads'' \<mapsto> Dir)\<rparr>"
  let ?cmd = "full_cmd u q (path_join ''downloads'' (filename_or fn ''full_video.mp4''))"
  have "proc os (length (spawned ?w2)) ?cmd = Exited rc out err"
    using assms(3) by simp
  from subprocess_run_failed [OF this assms(4,5,6)]
  show ?thesis
    using assms(1) mkdir_exist_ok_success [OF assms(2)]
    by (simp add: download_full_video_def Let_def)
qed

lemma download_video_segment_fails:
  assumes "validate_youtube_url_downloadable os u w = (Inr (), w1)"
      and "storage w1 ''downloads'' \<noteq> Some File"
      and "fits s" and "fits e" and "fits q" and "fits (e - s)"
      and "proc os (length (spawned w1))
             [''yt-dlp'',
              ''--format'', ''best[height<='' @ str_int q @ '']'',
              ''--external-downloader'', ''ffmpeg'',
              ''--external-downloader-args'',
              ''ffmpeg:-ss '' @ str_int s @ '' -t '' @ str_int (e - s),
              ''--output'',
              ''downloads/video_segment_'' @ str_int s @ ''s_to_'' @ str_int e @ ''s.mp4'',
              u]
           = Exited rc out err"
      and "rc \<noteq> 0"
      and "decode os out = Inr out_text" and "decode os err = Inr err_text"
  shows "fst (download_video_segment os u s e q None w)
           = Inl (RuntimeError (''Error downloading video segment: '' @ err_text))"
proof -
  let ?w2 = "w1\<lparr>storage := (storage w1)(''downloads'' \<mapsto> Dir)\<rparr>"
  let ?p = "path_join ''downloads'' (''video_segment_'' @ str_int s @ ''s_to_'' @ str_int e @ ''s.mp4'')"
  let ?c = "[''yt-dlp'',
             ''--format'', ''best[height<='' @ str_int q @ '']'',
             ''--external-downloader'', ''ffmpeg'',
             ''--external-downloader-args'',
             ''ffmpeg:-ss '' @ str_int s @ '' -t '' @ str_int (e - s),
             ''--output'', ?p, u]"
  have n: "segment_filename None s e =
             Inr (''video_segment_'' @ str_int s @ ''s_to_'' @ str_int e @ ''s.mp4'')"
    using assms(3,4) by (rule segment_filename_default)
  have c: "segment_cmd u s (e - s) q ?p = Inr ?c"
    using assms(5,3,6) by (rule segment_cmd_fits)
  have "proc os (length (spawned ?w2)) ?c = Exited rc out err"
    using assms(7) by (simp add: path_join_def)
  from subprocess_run_failed [OF this assms(8,9,10)]
  show ?thesis
    using assms(1) mkdir_exist_ok_success [OF assms(2)] n c
    by (simp add: download_video_segment_def Let_def)
qed

text \<open>
  C6, as the claim states it, fails: in the run below the fetch process exits with 1 and
  writes a byte to its standard error that is no text. \<open>subprocess.run\<close> then raises
  \<open>UnicodeDecodeError\<close> in place of \<open>CalledProcessError\<close>; no \<open>except\<close> clause of
  the fetch catches it, it is a \<open>ValueError\<close>, and the endpoint answers with status
  400.
\<close>

theorem undecodable_stderr_counterexample:
  "proc env_fetch_garbled (length (spawned w_validated))
     (full_cmd ''https://youtu.be/VALID'' 720 ''downloads/full_video.mp4'')
     = Exited 1 [] [CHR 0xFF]
   \<and> last (spawned (snd (api_download env_fetch_garbled
          \<lparr>url = ''https://youtu.be/VALID'', quality = 720, mode = ''full'',
           start_time = None, end_time = None\<rparr> w0)))
     = full_cmd ''https://youtu.be/VALID'' 720 ''downloads/full_video.mp4''
   \<and> fst (download_full_video env_fetch_garbled ''https://youtu.be/VALID'' 720 None w0)
     = Inl (UnicodeDecodeError ''codec can not decode byte: ordinal not in range(128)'')
   \<and> is_ValueError (UnicodeDecodeError ''codec can not decode byte: ordinal not in range(128)'')
   \<and> status_of (fst (api_download env_fetch_garbled
          \<lparr>url = ''https://youtu.be/VALID'', quality = 720, mode = ''full'',
           start_time = None, end_time = None\<rparr> w0))
     = 400"
  by code_simp

text \<open>
  C6, amended. Let validation and the creation of the output directory succeed, and let
  the fetch process then exit with a non-zero code, its captured output being text, with
  \<open>err_text\<close> the text of its standard error. A full fetch fails with a
  \<open>RuntimeError\<close> whose message is \<open>Error downloading video: \<close> followed by
  \<open>err_text\<close>, a segment fetch with \<open>Error downloading video segment: \<close> followed
  by \<open>err_text\<close>, and the endpoint answers with status 500 and that message as the
  detail. For the segment fetch to be started at all its integers must have a decimal
  text.
\<close>

theorem fetch_failure_is_server_error:
  assumes "validate_youtube_url_downloadable os (url r) w = (Inr (), w1)"
      and "storage w1 ''downloads'' \<noteq> Some File"
      and "rc \<noteq> 0"
      and "decode os out = Inr out_text" and "decode os err = Inr err_text"
  shows "(lower (mode r) \<noteq> ''segment''
          \<and> proc os (length (spawned w1))
               (full_cmd (url r) (quality r) ''downloads/full_video.mp4'') = Exited rc out err
          \<longrightarrow> fst (download_full_video os (url r) (quality r) None w)
                = Inl (RuntimeError (''Error downloading video: '' @ err_text))
              \<and> fst (api_download os r w)
                = ErrorResponse 500 (''Error downloading video: '' @ err_text))
       \<and> (lower (mode r) = ''segment'' \<and> start_time r = Some s \<and> end_time r = Some e
          \<and> fits s \<and> fits e \<and> fits (quality r) \<and> fits (e - s)
          \<and> proc os (length (spawned w1))
               [''yt-dlp'',
                ''--format'', ''best[height<='' @ str_int (quality r) @ '']'',
                ''--external-downloader'', ''ffmpeg'',
                ''--external-downloader-args'',
                ''ffmpeg:-ss '' @ str_int s @ '' -t '' @ str_int (e - s),
                ''--output'',
                ''downloads/video_segment_'' @ str_int s @ ''s_to_'' @ str_int e @ ''s.mp4'',
                url r]
              = Exited rc out err
          \<longrightarrow> fst (download_video_segment os (url r) s e (quality r) None w)
                = Inl (RuntimeError (''Error downloading video segment: '' @ err_text))
              \<and> fst (api_download os r w)
                = ErrorResponse 500 (''Error downloading video segment: '' @ err_text))"
proof (intro conjI impI)
  assume h: "lower (mode r) \<noteq> ''segment''
          \<and> proc os (length (spawned w1))
               (full_cmd (url r) (quality r) ''downloads/full_video.mp4'') = Exited rc out err"
  then have "proc os (length (spawned w1))
               (full_cmd (url r) (quality r)
                  (path_join ''downloads'' (filename_or None ''full_video.mp4''))) = Exited rc out err"
    by (simp add: path_join_def filename_or_def)
  from download_full_video_fails [OF assms(1,2) this assms(3,4,5)]
  show f: "fst (download_full_video os (url r) (quality r) None w)
                = Inl (RuntimeError (''Error downloading video: '' @ err_text))" .
  from h have "dispatch os r w = download_full_video os (url r) (quality r) None w"
    by (simp add: dispatch_full)
  with f have "fst (dispatch os r w) = Inl (RuntimeError (''Error downloading video: '' @ err_text))"
    by simp
  from api_download_error [OF this]
  show "fst (api_download os r w) = ErrorResponse 500 (''Error downloading video: '' @ err_text)"
    by simp
next
  assume h: "lower (mode r) = ''segment'' \<and> start_time r = Some s \<and> end_time r = Some e
          \<and> fits s \<and> fits e \<and> fits (quality r) \<and> fits (e - s)
          \<and> proc os (length (spawned w1))
               [''yt-dlp'',
                ''--format'', ''best[height<='' @ str_int (quality r) @ '']'',
                ''--external-downloader'', ''ffmpeg'',
                ''--external-downloader-args'',
                ''ffmpeg:-ss '' @ str_int s @ '' -t '' @ str_int (e - s),
                ''--output'',
                ''downloads/video_segment_'' @ str_int s @ ''s_to_'' @ str_int e @ ''s.mp4'',
                url r]
              = Exited rc out err"
  then have fs: "fits s" and fe: "fits e" and fq: "fits (quality r)" and fd: "fits (e - s)"
    and p: "proc os (length (spawned w1))
               [''yt-dlp'',
                ''--format'', ''best[height<='' @ str_int (quality r) @ '']'',
                ''--external-downloader'', ''ffmpeg'',
                ''--external-downloader-args'',
                ''ffmpeg:-ss '' @ str_int s @ '' -t '' @ str_int (e - s),
                ''--output'',
                ''downloads/video_segment_'' @ str_int s @ ''s_to_'' @ str_int e @ ''s.mp4'',
                url r]
              = Exited rc out err"
    by simp_all
  from download_video_segment_fails [OF assms(1,2) fs fe fq fd p assms(3,4,5)]
  show f: "fst (download_video_segment os (url r) s e (quality r) None w)
                = Inl (RuntimeError (''Error downloading video segment: '' @ err_text))" .
  from h have "dispatch os r w = download_video_segment os (url r) s e (quality r) None w"
    by (simp add: dispatch_segment)
  with f have "fst (dispatch os r w)
                 = Inl (RuntimeError (''Error downloading video segment: '' @ err_text))"
    by simp
  from api_download_error [OF this]
  show "fst (api_download os r w)
          = ErrorResponse 500 (''Error downloading video segment: '' @ err_text)"
    by simp
qed

theorem fetch_failure_is_server_error_witness:
  "fst (api_download env_fetch_fails
          \<lparr>url = ''https://youtu.be/VALID'', quality = 720, mode = ''full'',
           start_time = None, end_time = None\<rparr> w0)
     = ErrorResponse 500 (''Error downloading video: '' @ ''ERROR: Video unavailable'')
   \<and> fst (api_download env_fetch_fails
          \<lparr>url = ''https://youtu.be/VALID'', quality = 720, mode = ''segment'',
           start_time = Some 10, end_time = Some 25\<rparr> w0)
     = ErrorResponse 500 (''Error downloading video segment: '' @ ''ERROR: Video unavailable'')"
proof -
  let ?full = "\<lparr>url = ''https://youtu.be/VALID'', quality = 720, mode = ''full'',
           start_time = None, end_time = None\<rparr>"
  let ?seg = "\<lparr>url = ''https://youtu.be/VALID'', quality = 720, mode = ''segment'',
           start_time = Some 10, end_time = Some 25\<rparr>"
  have v1: "validate_youtube_url_downloadable env_fetch_fails (url ?full) w0 = (Inr (), w_validated)"
    by (simp add: validate_env_fetch_fails)
  have v2: "validate_youtube_url_downloadable env_fetch_fails (url ?seg) w0 = (Inr (), w_validated)"
    by (simp add: validate_env_fetch_fails)
  have rc: "(1::int) \<noteq> 0"
    by simp
  have d1: "decode env_fetch_fails [] = Inr []"
    by (simp add: env_fetch_fails_def decode_ascii_empty)
  have d2: "decode env_fetch_fails ''ERROR: Video unavailable'' = Inr ''ERROR: Video unavailable''"
    by code_simp
  have p1: "proc env_fetch_fails (length (spawned w_validated))
               (full_cmd (url ?full) (quality ?full) ''downloads/full_video.mp4'')
            = Exited 1 [] ''ERROR: Video unavailable''"
    by (simp add: env_fetch_fails_def full_cmd_def)
  have p2: "proc env_fetch_fails (length (spawned w_validated))
               [''yt-dlp'',
                ''--format'', ''best[height<='' @ str_int (quality ?seg) @ '']'',
                ''--external-downloader'', ''ffmpeg'',
                ''--external-downloader-args'',
                ''ffmpeg:-ss '' @ str_int 10 @ '' -t '' @ str_int (25 - 10),
                ''--output'',
                ''downloads/video_segment_'' @ str_int 10 @ ''s_to_'' @ str_int 25 @ ''s.mp4'',
                url ?seg]
            = Exited 1 [] ''ERROR: Video unavailable''"
    by (simp add: env_fetch_fails_def)
  have m1: "lower (mode ?full) \<noteq> ''segment''"
    by (simp add: lower_full)
  have m2: "lower (mode ?seg) = ''segment'' \<and> start_time ?seg = Some 10 \<and> end_time ?seg = Some 25
            \<and> fits 10 \<and> fits 25 \<and> fits (quality ?seg) \<and> fits (25 - 10)"
    by (simp add: lower_segment fits_10 fits_25 fits_720 fits_15)
  note t1 = fetch_failure_is_server_error [OF v1 w_validated_storage rc d1 d2]
  note t2 = fetch_failure_is_server_error [OF v2 w_validated_storage rc d1 d2, where s = 10 and e = 25]
  from conjunct1 [OF t1] m1 p1
  have a: "fst (api_download env_fetch_fails ?full w0)
     = ErrorResponse 500 (''Error downloading video: '' @ ''ERROR: Video unavailable'')"
    by (simp only: simp_thms)
  from conjunct2 [OF t2] m2 p2
  have b: "fst (api_download env_fetch_fails ?seg w0)
     = ErrorResponse 500 (''Error downloading video segment: '' @ ''ERROR: Video unavailable'')"
    by (simp only: simp_thms)
  from a b show ?thesis
    by (rule conjI)
qed

section \<open>Dependency check\<close>

















section \<open>Cleanup after the response\<close>

lemma api_download_file_response:
  assumes "fst (api_download os r w) = FileResponse p fn mt bg"
  shows "fst (dispatch os r w) = Inr p \<and> fn = path_name p \<and> mt = ''video/mp4''
         \<and> bg = [Unlink p True]"
  using assms
  by (cases "dispatch os r w") (auto simp: api_download_def split: sum.splits if_splits)

text \<open>
  C8. When the endpoint answers with a file response, the file it serves is the path the
  fetch returned, and the one task it leaves for after the response is sent is
  \<open>unlink\<close> of that path with \<open>missing_ok\<close> set. Run on storage where the path is a
  file, the task removes it and raises nothing; run again, or run where the path is
  already absent, it raises nothing and leaves the storage as it is.
\<close>

theorem produced_file_deleted_after_send:
  assumes "fst (api_download os r w) = FileResponse p fn mt bg"
  shows "fst (dispatch os r w) = Inr p
       \<and> bg = [Unlink p True]
       \<and> (st p = Some File \<longrightarrow>
            run_background bg st = Inr (st(p := None))
            \<and> (st(p := None)) p = None
            \<and> run_background bg (st(p := None)) = Inr (st(p := None)))
       \<and> (st p = None \<longrightarrow> run_background bg st = Inr st)"
proof -
  from api_download_file_response [OF assms]
  have d: "fst (dispatch os r w) = Inr p" and bg: "bg = [Unlink p True]"
    by simp_all
  have 1: "st p = Some File \<longrightarrow>
            run_background bg st = Inr (st(p := None))
            \<and> (st(p := None)) p = None
            \<and> run_background bg (st(p := None)) = Inr (st(p := None))"
    by (simp add: bg unlink_def)
  have 2: "st p = None \<longrightarrow> run_background bg st = Inr st"
    by (simp add: bg unlink_def)
  from d bg 1 2 show ?thesis by blast
qed

theorem produced_file_deleted_after_send_witness:
  "run_background [Unlink ''downloads/full_video.mp4'' True]
      [''downloads/full_video.mp4'' \<mapsto> File]
     = Inr ([''downloads/full_video.mp4'' \<mapsto> File](''downloads/full_video.mp4'' := None))
   \<and> run_background [Unlink ''downloads/full_video.mp4'' True]
      ([''downloads/full_video.mp4'' \<mapsto> File](''downloads/full_video.mp4'' := None))
     = Inr ([''downloads/full_video.mp4'' \<mapsto> File](''downloads/full_video.mp4'' := None))
   \<and> run_background [Unlink ''downloads/full_video.mp4'' True] Map.empty = Inr Map.empty"
proof -
  let ?r = "\<lparr>url = ''https://youtu.be/VALID'', quality = 480, mode = ''full'',
           start_time = None, end_time = None\<rparr>"
  have f: "fst (api_download env_ok ?r w0)
      = FileResponse ''downloads/full_video.mp4'' ''full_video.mp4'' ''video/mp4''
          [Unlink ''downloads/full_video.mp4'' True]"
    by code_simp
  from produced_file_deleted_after_send [OF f, of "[''downloads/full_video.mp4'' \<mapsto> File]"]
  have a: "run_background [Unlink ''downloads/full_video.mp4'' True]
      [''downloads/full_video.mp4'' \<mapsto> File]
     = Inr ([''downloads/full_video.mp4'' \<mapsto> File](''downloads/full_video.mp4'' := None))
   \<and> run_background [Unlink ''downloads/full_video.mp4'' True]
      ([''downloads/full_video.mp4'' \<mapsto> File](''downloads/full_video.mp4'' := None))
     = Inr ([''downloads/full_video.mp4'' \<mapsto> File](''downloads/full_video.mp4'' := None))"
    by simp
  from produced_file_deleted_after_send [OF f, of Map.empty]
  have b: "run_background [Unlink ''downloads/full_video.mp4'' True] Map.empty = Inr Map.empty"
    by simp
  from a b show ?thesis by blast
qed

section \<open>Dispatch on the mode\<close>

text \<open>
  C9. A request whose lowercased mode is not \<open>segment\<close> is a full-video fetch of its
  URL at its quality: the answer is the one the same request gets with mode \<open>full\<close> and
  no time bounds, so an unknown mode raises nothing of its own and the bounds are not
  read; once validation and the creation of the output directory succeed, the command
  started is the full fetch, which carries no time bound.
\<close>

theorem other_modes_fetch_full:
  assumes "lower (mode r) \<noteq> ''segment''"
  shows "dispatch os r w = download_full_video os (url r) (quality r) None w
         \<and> api_download os r w =
             api_download os (r\<lparr>mode := ''full'', start_time := None, end_time := None\<rparr>) w
         \<and> (validate_youtube_url_downloadable os (url r) w = (Inr (), w1)
              \<and> storage w1 ''downloads'' \<noteq> Some File \<longrightarrow>
            spawned (snd (api_download os r w)) =
              spawned w1 @ [full_cmd (url r) (quality r) ''downloads/full_video.mp4''])"
proof (intro conjI impI)
  show d: "dispatch os r w = download_full_video os (url r) (quality r) None w"
    using assms by (rule dispatch_full)
  show "api_download os r w =
          api_download os (r\<lparr>mode := ''full'', start_time := None, end_time := None\<rparr>) w"
    using assms lower_full by (simp add: api_download_def dispatch_def)
  assume v: "validate_youtube_url_downloadable os (url r) w = (Inr (), w1)
              \<and> storage w1 ''downloads'' \<noteq> Some File"
  then have v1: "validate_youtube_url_downloadable os (url r) w = (Inr (), w1)"
    and v2: "storage w1 ''downloads'' \<noteq> Some File"
    by simp_all
  from full_after_validation [OF v1 v2, of "quality r" None]
  show "spawned (snd (api_download os r w)) =
          spawned w1 @ [full_cmd (url r) (quality r) ''downloads/full_video.mp4'']"
    by (simp add: snd_api_download d path_join_def filename_or_def)
qed

theorem other_modes_fetch_full_witness:
  "api_download env_ok \<lparr>url = ''https://youtu.be/VALID'', quality = 720, mode = ''banana'',
                     start_time = Some 5, end_time = Some 3\<rparr> w0
     = api_download env_ok \<lparr>url = ''https://youtu.be/VALID'', quality = 720, mode = ''full'',
                     start_time = None, end_time = None\<rparr> w0
   \<and> spawned (snd (api_download env_ok
          \<lparr>url = ''https://youtu.be/VALID'', quality = 720, mode = ''banana'',
           start_time = Some 5, end_time = Some 3\<rparr> w0))
     = spawned w_validated @
       [full_cmd ''https://youtu.be/VALID'' 720 ''downloads/full_video.mp4'']
   \<and> fst (api_download env_ok
          \<lparr>url = ''https://youtu.be/VALID'', quality = 720, mode = ''banana'',
           start_time = Some 5, end_time = Some 3\<rparr> w0)
     = FileResponse ''downloads/full_video.mp4'' ''full_video.mp4'' ''video/mp4''
         [Unlink ''downloads/full_video.mp4'' True]"
proof -
  let ?r = "\<lparr>url = ''https://youtu.be/VALID'', quality = 720, mode = ''banana'',
             start_time = Some 5, end_time = Some 3\<rparr>"
  have b: "lower (mode ?r) \<noteq> ''segment''"
    by code_simp
  have v: "validate_youtube_url_downloadable env_ok (url ?r) w0 = (Inr (), w_validated)
           \<and> storage w_validated ''downloads'' \<noteq> Some File"
    using validate_env_ok w_validated_storage by simp
  have f: "fst (api_download env_ok ?r w0)
     = FileResponse ''downloads/full_video.mp4'' ''full_video.mp4'' ''video/mp4''
         [Unlink ''downloads/full_video.mp4'' True]"
    by code_simp
  note t = other_modes_fetch_full [OF b, of env_ok w0 w_validated]
  from t have 1: "api_download env_ok ?r w0 =
      api_download env_ok (?r\<lparr>mode := ''full'', start_time := None, end_time := None\<rparr>) w0"
    by (rule conjunct1 [OF conjunct2])
  have 2: "spawned (snd (api_download env_ok ?r w0)) =
      spawned w_validated @ [full_cmd (url ?r) (quality ?r) ''downloads/full_video.mp4'']"
    by (rule mp [OF conjunct2 [OF conjunct2 [OF t]] v])
  from 1 have e1: "api_download env_ok ?r w0 =
      api_download env_ok \<lparr>url = ''https://youtu.be/VALID'', quality = 720, mode = ''full'',
                     start_time = None, end_time = None\<rparr> w0"
    by simp
  from 2 have e2: "spawned (snd (api_download env_ok ?r w0)) =
      spawned w_validated @ [full_cmd ''https://youtu.be/VALID'' 720 ''downloads/full_video.mp4'']"
    by simp
  from e1 e2 f show ?thesis
    by (intro conjI)
qed

end
